theory Spec2Isabelle
  imports Main
begin

section \<open>The feed validator of \<^verbatim>\<open>orchestrator/scripts/validate_feed.py\<close>\<close>

subsection \<open>XML element trees\<close>

text \<open>
  An \<^verbatim>\<open>xml.etree.ElementTree.Element\<close>, as far as the validator reads it: the
  qualified tag, the text before the first child (\<^verbatim>\<open>None\<close> when there is none) and
  the child elements in document order. Attributes and tails are never read.
\<close>

datatype element = Element (tag: string) (etext: "string option") (children: "element list")

text \<open>\<^verbatim>\<open>elem.find(t)\<close> with a plain tag: the first child carrying that tag.\<close>

definition find_elem :: "string \<Rightarrow> element \<Rightarrow> element option" where
  "find_elem t e = (case filter (\<lambda>c. tag c = t) (children e) of [] \<Rightarrow> None | c # _ \<Rightarrow> Some c)"

text \<open>\<^verbatim>\<open>elem.findall(t)\<close>: all children carrying that tag, in document order.\<close>

definition findall :: "string \<Rightarrow> element \<Rightarrow> element list" where
  "findall t e = filter (\<lambda>c. tag c = t) (children e)"

text \<open>
  \<^verbatim>\<open>elem.findtext(t, default)\<close>: the text of the first child carrying that tag, the
  empty string when that child has no text, and \<^verbatim>\<open>default\<close> when there is no such
  child.
\<close>

definition findtext :: "string \<Rightarrow> string \<Rightarrow> element \<Rightarrow> string" where
  "findtext t d e =
     (case find_elem t e of
        None \<Rightarrow> d
      | Some c \<Rightarrow> (case etext c of None \<Rightarrow> [] | Some s \<Rightarrow> s))"

subsection \<open>The result dictionary\<close>

record validation_result =
  url :: string
  valid :: bool
  title :: "string option"
  item_count :: nat
  latest_date :: "string option"
  sample_headlines :: "string list"
  language :: "string option"
  errors :: "string list"

text \<open>Lines 25 to 34: the dictionary every call starts from.\<close>

definition initial_result :: "string \<Rightarrow> validation_result" where
  "initial_result u =
     \<lparr>url = u, valid = False, title = None, item_count = 0, latest_date = None,
      sample_headlines = [], language = None, errors = []\<rparr>"

text \<open>Python truth of an optional string: \<^verbatim>\<open>None\<close> and \<^verbatim>\<open>""\<close> are false.\<close>

fun truthy :: "string option \<Rightarrow> bool" where
  "truthy None = False"
| "truthy (Some s) = (s \<noteq> [])"

subsection \<open>The environment: network, parser, file system\<close>

text \<open>
  The exceptions the \<^verbatim>\<open>try\<close> block distinguishes, in the order of its handlers:
  \<^verbatim>\<open>requests.exceptions.Timeout\<close>, \<^verbatim>\<open>requests.exceptions.HTTPError\<close> with the status
  code of its response, \<^verbatim>\<open>ET.ParseError\<close> with its message, and every other
  \<^verbatim>\<open>Exception\<close> with its message.
\<close>

datatype exn = Timeout | HTTPError nat | ParseError string | OtherException string

record response =
  status_code :: nat
  content :: string

text \<open>The namespace \<^verbatim>\<open>parse_args\<close> returns.\<close>

record cli_args =
  arg_url :: "string option"
  arg_batch :: "string option"
  arg_verbose :: bool
  arg_json :: bool

text \<open>
  What \<^verbatim>\<open>parser.parse_args()\<close> of line 111 does with the command line: it returns
  the namespace, or it ends the process by itself, with status 2 after a usage error
  (an unknown option, a second positional argument, \<^verbatim>\<open>--batch\<close> without a value) and
  with status 0 after printing the help for \<^verbatim>\<open>-h\<close>.
\<close>

datatype parsed = Namespace cli_args | UsageError | HelpRequested

text \<open>
  What the program cannot compute by itself: the answer of \<^verbatim>\<open>requests.get\<close> for a
  URL (with the fixed header and the timeout of 15 seconds), the outcome of
  \<^verbatim>\<open>ET.fromstring\<close> on a body, the lines of a file opened for reading, and the
  outcome of \<^verbatim>\<open>argparse\<close> on the arguments after the program name. Each of the
  first three is either a value or the exception raised. The environment is fixed during
  one run: the same URL gets the same answer.
\<close>

record env =
  requests_get :: "string \<Rightarrow> exn + response"
  ET_fromstring :: "string \<Rightarrow> exn + element"
  open_lines :: "string \<Rightarrow> exn + string list"
  parse_args :: "string list \<Rightarrow> parsed"

text \<open>
  How \<^verbatim>\<open>requests.get\<close> reports a timeout, by the moment it strikes. While connecting
  it raises \<^verbatim>\<open>ConnectTimeout\<close> and while waiting for the response to begin
  \<^verbatim>\<open>ReadTimeout\<close>, both subclasses of \<^verbatim>\<open>requests.exceptions.Timeout\<close>. The body is
  read inside \<^verbatim>\<open>requests.get\<close> as well (\<^verbatim>\<open>requests/sessions.py\<close>), and a timeout
  there is raised as \<^verbatim>\<open>requests.exceptions.ConnectionError\<close>
  (\<^verbatim>\<open>requests/models.py\<close>), which is no \<^verbatim>\<open>Timeout\<close>: with its message it is one of the
  other exceptions.
\<close>

datatype timeout_phase = Connecting | AwaitingResponse | ReadingBody

definition timeout_raised :: "timeout_phase \<Rightarrow> string \<Rightarrow> exn" where
  "timeout_raised ph m =
     (case ph of
        Connecting \<Rightarrow> Timeout
      | AwaitingResponse \<Rightarrow> Timeout
      | ReadingBody \<Rightarrow> OtherException m)"

text \<open>
  \<^verbatim>\<open>Response.raise_for_status\<close> of the requests library (\<^verbatim>\<open>requests/models.py\<close>,
  called on line 42): it raises
  \<^verbatim>\<open>HTTPError\<close>, carrying the response, for a client error (400 to 499) or a server
  error (500 to 599), and returns for every other status code.
\<close>

definition raise_for_status :: "response \<Rightarrow> exn option" where
  "raise_for_status r =
     (if 400 \<le> status_code r \<and> status_code r < 600 then Some (HTTPError (status_code r))
      else None)"

text \<open>The decimal rendering of a status code inside an f-string.\<close>

definition digit_char :: "nat \<Rightarrow> char" where
  "digit_char d = ''0123456789'' ! d"

fun str_nat :: "nat \<Rightarrow> string" where
  "str_nat n = (if n < 10 then [digit_char n] else str_nat (n div 10) @ [digit_char (n mod 10)])"

declare str_nat.simps [simp del]

subsection \<open>\<^verbatim>\<open>validate_rss_feed\<close>\<close>

definition atom_feed :: string where
  "atom_feed = ''{http://www.w3.org/2005/Atom}feed''"

definition atom_title :: string where
  "atom_title = ''{http://www.w3.org/2005/Atom}title''"

definition atom_entry :: string where
  "atom_entry = ''{http://www.w3.org/2005/Atom}entry''"

text \<open>Lines 59 to 66: the body of the loop over the RSS items.\<close>

definition rss_item_step :: "validation_result \<Rightarrow> element \<Rightarrow> validation_result" where
  "rss_item_step r item =
     (let t = findtext ''title'' [] item;
          r1 = (if t \<noteq> [] then r\<lparr>sample_headlines := sample_headlines r @ [t]\<rparr> else r);
          pub_date = findtext ''pubDate'' [] item
      in if pub_date \<noteq> [] \<and> \<not> truthy (latest_date r1)
         then r1\<lparr>latest_date := Some pub_date\<rparr> else r1)"

text \<open>Lines 76 to 78: the body of the loop over the Atom entries.\<close>

definition atom_entry_step :: "validation_result \<Rightarrow> element \<Rightarrow> validation_result" where
  "atom_entry_step r entry =
     (let t = findtext atom_title [] entry
      in if t \<noteq> [] then r\<lparr>sample_headlines := sample_headlines r @ [t]\<rparr> else r)"

text \<open>Lines 49 to 66: the RSS branch.\<close>

definition rss_branch :: "element \<Rightarrow> validation_result \<Rightarrow> validation_result" where
  "rss_branch root r =
     (case find_elem ''channel'' root of
        None \<Rightarrow> r
      | Some channel \<Rightarrow>
          (let r1 = r\<lparr>title := Some (findtext ''title'' [] channel)\<rparr>;
               r2 = r1\<lparr>language := Some (findtext ''language'' [] channel)\<rparr>;
               items = findall ''item'' channel;
               r3 = r2\<lparr>item_count := length items\<rparr>
           in foldl rss_item_step r3 (take 5 items)))"

text \<open>Lines 70 to 78: the Atom branch.\<close>

definition atom_branch :: "element \<Rightarrow> validation_result \<Rightarrow> validation_result" where
  "atom_branch root r =
     (let r1 = r\<lparr>title := Some (findtext atom_title [] root)\<rparr>;
          entries = findall atom_entry root;
          r2 = r1\<lparr>item_count := length entries\<rparr>
      in foldl atom_entry_step r2 (take 5 entries))"

text \<open>Lines 84 to 90: the two checks and the computation of \<^verbatim>\<open>valid\<close>.\<close>

definition validation_checks :: "validation_result \<Rightarrow> validation_result" where
  "validation_checks r =
     (let r1 = (if item_count r < 2
                then r\<lparr>errors := errors r @ [''Feed has fewer than 2 items'']\<rparr> else r);
          r2 = (if sample_headlines r1 = []
                then r1\<lparr>errors := errors r1 @ [''No headlines found in feed'']\<rparr> else r1)
      in r2\<lparr>valid := (length (errors r2) = 0)\<rparr>)"

text \<open>
  Lines 48 to 90: what happens to the result once the document is parsed. The last
  branch is the early \<^verbatim>\<open>return result\<close> of line 81, which skips the checks.
\<close>

definition process_root :: "element \<Rightarrow> validation_result \<Rightarrow> validation_result" where
  "process_root root r =
     (if tag root = ''rss'' then validation_checks (rss_branch root r)
      else if tag root = atom_feed then validation_checks (atom_branch root r)
      else r\<lparr>errors := errors r @ [''Unknown feed format: '' @ tag root]\<rparr>)"

text \<open>
  Lines 38 to 45: the fetch, the status check and the parse, the three calls of the
  \<^verbatim>\<open>try\<close> block that can raise. None of them touches the result dictionary.
\<close>

definition fetch_parse :: "env \<Rightarrow> string \<Rightarrow> exn + element" where
  "fetch_parse E u =
     (case requests_get E u of
        Inl e \<Rightarrow> Inl e
      | Inr resp \<Rightarrow>
          (case raise_for_status resp of
             Some e \<Rightarrow> Inl e
           | None \<Rightarrow> ET_fromstring E (content resp)))"

text \<open>
  Lines 37 to 90, the \<^verbatim>\<open>try\<close> block: the exception raised (if any) together with the
  result dictionary as it stands at that moment. The dictionary is mutated in place,
  so the handlers see whatever was written before the exception.
\<close>

definition try_body :: "env \<Rightarrow> validation_result \<Rightarrow> exn option \<times> validation_result" where
  "try_body E r =
     (case fetch_parse E (url r) of
        Inl e \<Rightarrow> (Some e, r)
      | Inr root \<Rightarrow> (None, process_root root r))"

text \<open>Lines 92 to 99: the entry each handler appends.\<close>

fun handler_message :: "exn \<Rightarrow> string" where
  "handler_message Timeout = ''Request timed out''"
| "handler_message (HTTPError c) = ''HTTP error: '' @ str_nat c"
| "handler_message (ParseError m) = ''XML parse error: '' @ m"
| "handler_message (OtherException m) = ''Error: '' @ m"

text \<open>Lines 18 to 101. The parameter \<^verbatim>\<open>verbose\<close> is accepted and never read.\<close>

definition validate_rss_feed :: "env \<Rightarrow> string \<Rightarrow> bool \<Rightarrow> validation_result" where
  "validate_rss_feed E u verbose =
     (case try_body E (initial_result u) of
        (None, r) \<Rightarrow> r
      | (Some e, r) \<Rightarrow> r\<lparr>errors := errors r @ [handler_message e]\<rparr>)"

subsection \<open>\<^verbatim>\<open>main\<close>\<close>














subsection \<open>Notions the specification speaks of\<close>

text \<open>
  The item list of an RSS document: the \<^verbatim>\<open>item\<close> children of its first
  \<^verbatim>\<open>channel\<close>, and no items when there is no channel.
\<close>

definition rss_items :: "element \<Rightarrow> element list" where
  "rss_items root = (case find_elem ''channel'' root of None \<Rightarrow> [] | Some channel \<Rightarrow> findall ''item'' channel)"

text \<open>
  The item list and the title of an item for the two recognised formats.
\<close>

definition feed_items :: "element \<Rightarrow> element list" where
  "feed_items root =
     (if tag root = ''rss'' then rss_items root
      else if tag root = atom_feed then findall atom_entry root else [])"

definition item_title :: "element \<Rightarrow> element \<Rightarrow> string" where
  "item_title root i =
     (if tag root = ''rss'' then findtext ''title'' [] i else findtext atom_title [] i)"

text \<open>
  In the words of the specification: the \<^verbatim>\<open>pubDate\<close> text of the first item in
  document order that has a non-empty one, if any.
\<close>

fun first_pub_date :: "element list \<Rightarrow> string option" where
  "first_pub_date [] = None"
| "first_pub_date (i # is) =
     (if findtext ''pubDate'' [] i \<noteq> [] then Some (findtext ''pubDate'' [] i) else first_pub_date is)"



subsection \<open>Example documents and environments\<close>

definition titled_item :: "string \<Rightarrow> element" where
  "titled_item t = Element ''item'' None [Element ''title'' (Some t) []]"

definition dated_item :: "string \<Rightarrow> string \<Rightarrow> element" where
  "dated_item t d =
     Element ''item'' None [Element ''title'' (Some t) [], Element ''pubDate'' (Some d) []]"

definition rss_doc :: "element list \<Rightarrow> element" where
  "rss_doc items =
     Element ''rss'' None
       [Element ''channel'' None
          ([Element ''title'' (Some ''News'') [], Element ''language'' (Some ''en'') []] @ items)]"

definition seven_items_doc :: element where
  "seven_items_doc =
     rss_doc [titled_item ''h1'', dated_item ''h2'' ''Mon'', dated_item ''h3'' ''Tue'',
              titled_item ''h4'', titled_item ''h5'', titled_item ''h6'', titled_item ''h7'']"

definition late_date_doc :: element where
  "late_date_doc =
     rss_doc [titled_item ''h1'', titled_item ''h2'', titled_item ''h3'', titled_item ''h4'',
              titled_item ''h5'', dated_item ''h6'' ''Sat'']"

definition two_items_doc :: element where
  "two_items_doc = rss_doc [titled_item ''h1'', titled_item ''h2'']"

definition atom_doc :: element where
  "atom_doc =
     Element atom_feed None
       [Element atom_title (Some ''Test Feed'') [],
        Element atom_entry None [Element atom_title (Some ''e1'') []],
        Element atom_entry None [],
        Element atom_entry None [Element atom_title (Some ''e3'') []]]"

definition html_doc :: element where
  "html_doc = Element ''html'' None []"

definition bare_rss_doc :: element where
  "bare_rss_doc = Element ''rss'' None []"

definition batch_args :: cli_args where
  "batch_args = \<lparr>arg_url = None, arg_batch = Some ''feeds.txt'', arg_verbose = False, arg_json = True\<rparr>"

definition text_args :: cli_args where
  "text_args = \<lparr>arg_url = None, arg_batch = Some ''feeds.txt'', arg_verbose = True, arg_json = False\<rparr>"

definition no_args :: cli_args where
  "no_args = \<lparr>arg_url = None, arg_batch = None, arg_verbose = False, arg_json = False\<rparr>"

text \<open>What \<^verbatim>\<open>argparse\<close> makes of a few command lines.\<close>

definition example_parse :: "string list \<Rightarrow> parsed" where
  "example_parse argv =
     (if argv = [''--batch'', ''feeds.txt'', ''--json''] then Namespace batch_args
      else if argv = [''-v'', ''--batch'', ''feeds.txt''] then Namespace text_args
      else if argv = [] then Namespace no_args
      else if argv = [''-h''] then HelpRequested
      else UsageError)"

definition serving :: "element \<Rightarrow> env" where
  "serving d =
     \<lparr>requests_get = (\<lambda>u. Inr \<lparr>status_code = 200, content = ''<feed/>''\<rparr>),
      ET_fromstring = (\<lambda>c. Inr d),
      open_lines = (\<lambda>p. Inl (OtherException ''No such file'')),
      parse_args = example_parse\<rparr>"

definition timing_out :: env where
  "timing_out =
     \<lparr>requests_get = (\<lambda>u. Inl Timeout),
      ET_fromstring = (\<lambda>c. Inr two_items_doc),
      open_lines = (\<lambda>p. Inl (OtherException ''No such file'')),
      parse_args = example_parse\<rparr>"

definition refusing :: env where
  "refusing =
     \<lparr>requests_get = (\<lambda>u. Inl (OtherException ''Connection refused'')),
      ET_fromstring = (\<lambda>c. Inr two_items_doc),
      open_lines = (\<lambda>p. Inl (OtherException ''No such file'')),
      parse_args = example_parse\<rparr>"

definition answering :: "nat \<Rightarrow> env" where
  "answering code =
     \<lparr>requests_get = (\<lambda>u. Inr \<lparr>status_code = code, content = []\<rparr>),
      ET_fromstring = (\<lambda>c. Inl (ParseError ''no element found: line 1, column 0'')),
      open_lines = (\<lambda>p. Inl (OtherException ''No such file'')),
      parse_args = example_parse\<rparr>"

definition batch_lines :: "string list" where
  "batch_lines =
     [''# feeds'' @ [CHR 0x0A], ''http://good'' @ [CHR 0x0A], [CHR 0x0A],
      ''  http://bad '' @ [CHR 0x0A]]"

definition batch_env :: env where
  "batch_env =
     \<lparr>requests_get = (\<lambda>u. if u = ''http://good''
                           then Inr \<lparr>status_code = 200, content = ''<rss/>''\<rparr>
                           else Inr \<lparr>status_code = 404, content = []\<rparr>),
      ET_fromstring = (\<lambda>c. Inr two_items_doc),
      open_lines = (\<lambda>p. Inr batch_lines),
      parse_args = example_parse\<rparr>"

definition stalling :: env where
  "stalling =
     \<lparr>requests_get = (\<lambda>u. Inl (timeout_raised ReadingBody ''Read timed out.'')),
      ET_fromstring = (\<lambda>c. Inr two_items_doc),
      open_lines = (\<lambda>p. Inl (OtherException ''No such file'')),
      parse_args = example_parse\<rparr>"

lemmas example_defs =
  titled_item_def dated_item_def rss_doc_def seven_items_doc_def late_date_doc_def
  two_items_doc_def atom_doc_def html_doc_def bare_rss_doc_def serving_def timing_out_def
  refusing_def answering_def batch_lines_def batch_env_def batch_args_def text_args_def
  no_args_def example_parse_def stalling_def

lemmas model_defs =
  fetch_parse_def raise_for_status_def find_elem_def findall_def findtext_def
  rss_items_def feed_items_def item_title_def atom_feed_def atom_title_def atom_entry_def

lemmas run_defs =
  validate_rss_feed_def try_body_def process_root_def
  rss_branch_def rss_item_step_def atom_branch_def atom_entry_step_def validation_checks_def initial_result_def Let_def

section \<open>Properties\<close>

subsection \<open>The two loops\<close>

lemma rss_step_fields [simp]:
  "url (rss_item_step r i) = url r"
  "valid (rss_item_step r i) = valid r"
  "title (rss_item_step r i) = title r"
  "item_count (rss_item_step r i) = item_count r"
  "language (rss_item_step r i) = language r"
  "errors (rss_item_step r i) = errors r"
  by (simp_all add: rss_item_step_def Let_def)

lemma rss_step_headlines:
  "sample_headlines (rss_item_step r i) =
     sample_headlines r @ filter (\<lambda>t. t \<noteq> []) [findtext ''title'' [] i]"
  by (simp add: rss_item_step_def Let_def)

lemma rss_step_date:
  "latest_date (rss_item_step r i) =
     (if findtext ''pubDate'' [] i \<noteq> [] \<and> \<not> truthy (latest_date r)
      then Some (findtext ''pubDate'' [] i) else latest_date r)"
  by (simp add: rss_item_step_def Let_def)

lemma rss_loop_fields [simp]:
  "url (foldl rss_item_step r is) = url r"
  "valid (foldl rss_item_step r is) = valid r"
  "title (foldl rss_item_step r is) = title r"
  "item_count (foldl rss_item_step r is) = item_count r"
  "language (foldl rss_item_step r is) = language r"
  "errors (foldl rss_item_step r is) = errors r"
  by (induction "is" arbitrary: r; simp)+

lemma rss_loop_headlines:
  "sample_headlines (foldl rss_item_step r is) =
     sample_headlines r @ filter (\<lambda>t. t \<noteq> []) (map (findtext ''title'' []) is)"
  by (induction "is" arbitrary: r) (simp_all add: rss_step_headlines)

lemma rss_loop_date_set:
  "truthy (latest_date r) \<Longrightarrow> latest_date (foldl rss_item_step r is) = latest_date r"
  by (induction "is" arbitrary: r) (simp_all add: rss_step_date)

lemma rss_loop_date:
  "latest_date r = None \<Longrightarrow> latest_date (foldl rss_item_step r is) = first_pub_date is"
proof (induction "is" arbitrary: r)
  case Nil
  then show ?case by simp
next
  case (Cons i "is")
  show ?case
  proof (cases "findtext ''pubDate'' [] i = []")
    case True
    then have "latest_date (rss_item_step r i) = None"
      using Cons.prems by (simp add: rss_step_date)
    then show ?thesis using Cons.IH True by simp
  next
    case False
    then have "latest_date (rss_item_step r i) = Some (findtext ''pubDate'' [] i)"
      using Cons.prems by (simp add: rss_step_date)
    then show ?thesis using False by (simp add: rss_loop_date_set)
  qed
qed

lemma atom_step_fields [simp]:
  "url (atom_entry_step r i) = url r"
  "valid (atom_entry_step r i) = valid r"
  "title (atom_entry_step r i) = title r"
  "item_count (atom_entry_step r i) = item_count r"
  "language (atom_entry_step r i) = language r"
  "latest_date (atom_entry_step r i) = latest_date r"
  "errors (atom_entry_step r i) = errors r"
  by (simp_all add: atom_entry_step_def Let_def)

lemma atom_step_headlines:
  "sample_headlines (atom_entry_step r i) =
     sample_headlines r @ filter (\<lambda>t. t \<noteq> []) [findtext atom_title [] i]"
  by (simp add: atom_entry_step_def Let_def)

lemma atom_loop_fields [simp]:
  "url (foldl atom_entry_step r is) = url r"
  "valid (foldl atom_entry_step r is) = valid r"
  "title (foldl atom_entry_step r is) = title r"
  "item_count (foldl atom_entry_step r is) = item_count r"
  "language (foldl atom_entry_step r is) = language r"
  "latest_date (foldl atom_entry_step r is) = latest_date r"
  "errors (foldl atom_entry_step r is) = errors r"
  by (induction "is" arbitrary: r; simp)+

lemma atom_loop_headlines:
  "sample_headlines (foldl atom_entry_step r is) =
     sample_headlines r @ filter (\<lambda>t. t \<noteq> []) (map (findtext atom_title []) is)"
  by (induction "is" arbitrary: r) (simp_all add: atom_step_headlines)

subsection \<open>Branches, checks and the \<^verbatim>\<open>try\<close> block\<close>

lemma checks_fields [simp]:
  "url (validation_checks r) = url r"
  "title (validation_checks r) = title r"
  "item_count (validation_checks r) = item_count r"
  "latest_date (validation_checks r) = latest_date r"
  "sample_headlines (validation_checks r) = sample_headlines r"
  "language (validation_checks r) = language r"
  by (simp_all add: validation_checks_def Let_def)

lemma checks_valid: "valid (validation_checks r) = (errors (validation_checks r) = [])"
  by (simp add: validation_checks_def Let_def)

lemma checks_errors:
  "errors (validation_checks r) =
     errors r @ (if item_count r < 2 then [''Feed has fewer than 2 items''] else [])
              @ (if sample_headlines r = [] then [''No headlines found in feed''] else [])"
  by (simp add: validation_checks_def Let_def)

lemma rss_branch_headlines:
  "sample_headlines (rss_branch root r) =
     sample_headlines r @ filter (\<lambda>t. t \<noteq> []) (map (findtext ''title'' []) (take 5 (rss_items root)))"
  by (simp add: rss_branch_def rss_items_def Let_def rss_loop_headlines split: option.split)

lemma rss_branch_count:
  "item_count r = 0 \<Longrightarrow> item_count (rss_branch root r) = length (rss_items root)"
  by (simp add: rss_branch_def rss_items_def Let_def split: option.split)

lemma rss_branch_date:
  "latest_date r = None \<Longrightarrow>
     latest_date (rss_branch root r) = first_pub_date (take 5 (rss_items root))"
  by (simp add: rss_branch_def rss_items_def Let_def rss_loop_date split: option.split)

lemma rss_branch_errors [simp]: "errors (rss_branch root r) = errors r"
  by (simp add: rss_branch_def Let_def split: option.split)

lemma atom_branch_headlines:
  "sample_headlines (atom_branch root r) =
     sample_headlines r @ filter (\<lambda>t. t \<noteq> []) (map (findtext atom_title []) (take 5 (findall atom_entry root)))"
  by (simp add: atom_branch_def Let_def atom_loop_headlines)

lemma atom_branch_count: "item_count (atom_branch root r) = length (findall atom_entry root)"
  by (simp add: atom_branch_def Let_def)

lemma atom_branch_errors [simp]: "errors (atom_branch root r) = errors r"
  by (simp add: atom_branch_def Let_def)

lemma rss_not_atom: "atom_feed \<noteq> ''rss''"
  by (simp add: atom_feed_def)

lemma item_title_rss: "tag root = ''rss'' \<Longrightarrow> item_title root = findtext ''title'' []"
  by (rule ext) (simp add: item_title_def)

lemma item_title_atom: "tag root = atom_feed \<Longrightarrow> item_title root = findtext atom_title []"
  by (rule ext) (simp add: item_title_def rss_not_atom)

lemma process_headlines:
  "tag root = ''rss'' \<or> tag root = atom_feed \<Longrightarrow>
     sample_headlines (process_root root (initial_result u)) =
       filter (\<lambda>t. t \<noteq> []) (map (item_title root) (take 5 (feed_items root)))"
  by (auto simp: process_root_def feed_items_def item_title_rss item_title_atom
      rss_branch_headlines atom_branch_headlines initial_result_def rss_not_atom)

lemma process_count:
  "tag root = ''rss'' \<or> tag root = atom_feed \<Longrightarrow>
     item_count (process_root root (initial_result u)) = length (feed_items root)"
  by (auto simp: process_root_def feed_items_def rss_branch_count atom_branch_count
      initial_result_def rss_not_atom)

lemma process_url [simp]: "url (process_root root r) = url r"
  by (simp add: process_root_def rss_branch_def atom_branch_def Let_def split: option.split)

lemma process_unknown:
  "tag root \<noteq> ''rss'' \<Longrightarrow> tag root \<noteq> atom_feed \<Longrightarrow>
     process_root root r = r\<lparr>errors := errors r @ [''Unknown feed format: '' @ tag root]\<rparr>"
  by (simp add: process_root_def)

lemma process_valid:
  "valid r = False \<Longrightarrow> valid (process_root root r) = (errors (process_root root r) = [])"
  by (simp add: process_root_def checks_valid)

lemma process_date:
  "tag root = ''rss'' \<Longrightarrow>
     latest_date (process_root root (initial_result u)) = first_pub_date (take 5 (rss_items root))"
  by (simp add: process_root_def rss_branch_date initial_result_def)

lemma filter_all: "list_all P xs \<Longrightarrow> filter P xs = xs"
  by (induction xs) simp_all

text \<open>
  The three raising calls come before the first write to the dictionary, so a handler
  always starts from the initial dictionary.
\<close>

lemma validate_raised:
  "fetch_parse E u = Inl e \<Longrightarrow>
     validate_rss_feed E u v = (initial_result u)\<lparr>errors := [handler_message e]\<rparr>"
  by (simp add: validate_rss_feed_def try_body_def initial_result_def)

lemma validate_parsed:
  "fetch_parse E u = Inr root \<Longrightarrow>
     validate_rss_feed E u v = process_root root (initial_result u)"
  by (simp add: validate_rss_feed_def try_body_def initial_result_def)



lemma fetch_parse_status:
  "requests_get E u = Inr resp \<Longrightarrow> 400 \<le> status_code resp \<Longrightarrow> status_code resp < 600 \<Longrightarrow>
     fetch_parse E u = Inl (HTTPError (status_code resp))"
  by (simp add: fetch_parse_def raise_for_status_def)

subsection \<open>The driver\<close>





section \<open>The claims\<close>

text \<open>
  C1, as amended. For an RSS document, \<^verbatim>\<open>latest_date\<close> is the \<^verbatim>\<open>pubDate\<close> text of the
  first item, among the first five items of the channel, that has a non-empty one; it is
  absent when none of the first five items has one. The loop of lines 58 to 66 runs over
  \<^verbatim>\<open>items[:5]\<close> only.
\<close>

theorem latest_date_first_of_five:
  assumes "fetch_parse E u = Inr root" and "tag root = ''rss''"
  shows "latest_date (validate_rss_feed E u v) = first_pub_date (take 5 (rss_items root))"
  using assms by (simp add: validate_parsed process_date)

theorem latest_date_first_of_five_witness:
  "fetch_parse (serving seven_items_doc) ''http://a'' = Inr seven_items_doc
   \<and> tag seven_items_doc = ''rss''
   \<and> latest_date (validate_rss_feed (serving seven_items_doc) ''http://a'' False) = Some ''Mon''"
  using latest_date_first_of_five [of "serving seven_items_doc" "''http://a''" seven_items_doc False]
  by (simp add: example_defs model_defs)

text \<open>
  C1 as written fails on a channel of six items of which only the sixth carries a
  \<^verbatim>\<open>pubDate\<close>: the document has an item with a non-empty date, and \<^verbatim>\<open>latest_date\<close>
  stays absent.
\<close>

theorem latest_date_sixth_item_counterexample:
  "fetch_parse (serving late_date_doc) ''http://a'' = Inr late_date_doc
   \<and> tag late_date_doc = ''rss''
   \<and> first_pub_date (rss_items late_date_doc) = Some ''Sat''
   \<and> latest_date (validate_rss_feed (serving late_date_doc) ''http://a'' False) = None"
  by (simp add: example_defs model_defs run_defs)

text \<open>
  C2. \<^verbatim>\<open>validate_rss_feed\<close> returns a result whatever the environment does: the model is
  a total function whose handlers cover every exception of class \<^verbatim>\<open>Exception\<close>, and
  each failure of the fetch, the status check or the parse, as well as an unknown root
  tag, ends as exactly one entry of \<^verbatim>\<open>errors\<close> with \<^verbatim>\<open>valid\<close> false.
\<close>

theorem failures_become_errors:
  "(fetch_parse E u = Inl Timeout \<longrightarrow>
      errors (validate_rss_feed E u v) = [''Request timed out''])
   \<and> (\<forall>c. fetch_parse E u = Inl (HTTPError c) \<longrightarrow>
      errors (validate_rss_feed E u v) = [''HTTP error: '' @ str_nat c])
   \<and> (\<forall>m. fetch_parse E u = Inl (ParseError m) \<longrightarrow>
      errors (validate_rss_feed E u v) = [''XML parse error: '' @ m])
   \<and> (\<forall>m. fetch_parse E u = Inl (OtherException m) \<longrightarrow>
      errors (validate_rss_feed E u v) = [''Error: '' @ m])
   \<and> (\<forall>root. fetch_parse E u = Inr root \<and> tag root \<noteq> ''rss'' \<and> tag root \<noteq> atom_feed \<longrightarrow>
      errors (validate_rss_feed E u v) = [''Unknown feed format: '' @ tag root])
   \<and> (\<forall>e. fetch_parse E u = Inl e \<longrightarrow>
      length (errors (validate_rss_feed E u v)) = 1 \<and> \<not> valid (validate_rss_feed E u v))"
  by (simp add: validate_raised validate_parsed process_unknown initial_result_def)

theorem failures_become_errors_witness:
  "fetch_parse timing_out ''http://a'' = Inl Timeout
   \<and> errors (validate_rss_feed timing_out ''http://a'' False) = [''Request timed out'']
   \<and> fetch_parse (answering 503) ''http://a'' = Inl (HTTPError 503)
   \<and> errors (validate_rss_feed (answering 503) ''http://a'' False) = [''HTTP error: 503'']
   \<and> fetch_parse (answering 200) ''http://a''
       = Inl (ParseError ''no element found: line 1, column 0'')
   \<and> errors (validate_rss_feed (answering 200) ''http://a'' False)
       = [''XML parse error: no element found: line 1, column 0'']
   \<and> fetch_parse refusing ''http://a'' = Inl (OtherException ''Connection refused'')
   \<and> errors (validate_rss_feed refusing ''http://a'' False) = [''Error: Connection refused'']
   \<and> fetch_parse (serving html_doc) ''http://a'' = Inr html_doc
   \<and> errors (validate_rss_feed (serving html_doc) ''http://a'' False)
       = [''Unknown feed format: html'']"
  using failures_become_errors [of timing_out "''http://a''" False]
    failures_become_errors [of "answering 503" "''http://a''" False]
    failures_become_errors [of "answering 200" "''http://a''" False]
    failures_become_errors [of refusing "''http://a''" False]
    failures_become_errors [of "serving html_doc" "''http://a''" False]
  by (simp add: example_defs model_defs str_nat.simps digit_char_def)

text \<open>
  C3. On every path (success, unknown format, and each of the four handlers) the result
  has \<^verbatim>\<open>valid\<close> true exactly when \<^verbatim>\<open>errors\<close> is empty.
\<close>

theorem valid_iff_no_errors:
  "valid (validate_rss_feed E u v) = (errors (validate_rss_feed E u v) = [])"
proof (cases "fetch_parse E u")
  case (Inl e)
  then show ?thesis by (simp add: validate_raised initial_result_def)
next
  case (Inr root)
  have "valid (initial_result u) = False" by (simp add: initial_result_def)
  then show ?thesis using Inr by (simp add: validate_parsed process_valid)
qed

theorem valid_iff_no_errors_witness:
  "valid (validate_rss_feed (serving two_items_doc) ''http://a'' False) = True
   \<and> errors (validate_rss_feed (serving two_items_doc) ''http://a'' False) = []"
  using valid_iff_no_errors [of "serving two_items_doc" "''http://a''" False]
  by (simp add: example_defs model_defs run_defs)

text \<open>
  C4. A parsed document whose root tag is neither \<^verbatim>\<open>rss\<close> nor the Atom
  \<^verbatim>\<open>feed\<close> gives \<^verbatim>\<open>item_count\<close> 0, the single error "Unknown feed format: tag",
  \<^verbatim>\<open>valid\<close> false and neither of the two check errors: the result is the initial
  dictionary with that one error.
\<close>

theorem unknown_format_result:
  assumes "fetch_parse E u = Inr root" and "tag root \<noteq> ''rss''" and "tag root \<noteq> atom_feed"
  shows "item_count (validate_rss_feed E u v) = 0
         \<and> errors (validate_rss_feed E u v) = [''Unknown feed format: '' @ tag root]
         \<and> valid (validate_rss_feed E u v) = False
         \<and> ''Feed has fewer than 2 items'' \<notin> set (errors (validate_rss_feed E u v))
         \<and> ''No headlines found in feed'' \<notin> set (errors (validate_rss_feed E u v))
         \<and> validate_rss_feed E u v
             = (initial_result u)\<lparr>errors := [''Unknown feed format: '' @ tag root]\<rparr>"
  using assms by (simp add: validate_parsed process_unknown initial_result_def)

theorem unknown_format_result_witness:
  "fetch_parse (serving html_doc) ''http://a'' = Inr html_doc
   \<and> tag html_doc \<noteq> ''rss'' \<and> tag html_doc \<noteq> atom_feed
   \<and> errors (validate_rss_feed (serving html_doc) ''http://a'' False)
       = [''Unknown feed format: html'']
   \<and> item_count (validate_rss_feed (serving html_doc) ''http://a'' False) = 0"
  using unknown_format_result [of "serving html_doc" "''http://a''" html_doc False]
  by (simp add: example_defs model_defs initial_result_def)

text \<open>
  C5. For a recognised feed, \<^verbatim>\<open>sample_headlines\<close> is the list of the non-empty titles
  of the first five items in document order, so it is no longer than the smaller of 5
  and \<^verbatim>\<open>item_count\<close>; for an RSS document of seven items that all have a title it is
  the five titles of the first five items.
\<close>

theorem sample_headlines_first_five:
  assumes "fetch_parse E u = Inr root" and "tag root = ''rss'' \<or> tag root = atom_feed"
  shows "sample_headlines (validate_rss_feed E u v) =
           filter (\<lambda>t. t \<noteq> []) (map (item_title root) (take 5 (feed_items root)))
         \<and> item_count (validate_rss_feed E u v) = length (feed_items root)
         \<and> length (sample_headlines (validate_rss_feed E u v))
             \<le> min 5 (item_count (validate_rss_feed E u v))
         \<and> (tag root = ''rss'' \<and> length (feed_items root) = 7
              \<and> list_all (\<lambda>i. item_title root i \<noteq> []) (feed_items root)
            \<longrightarrow> sample_headlines (validate_rss_feed E u v)
                  = map (item_title root) (take 5 (feed_items root))
                \<and> length (sample_headlines (validate_rss_feed E u v)) = 5)"
proof -
  let ?R = "validate_rss_feed E u v"
  let ?ts = "map (item_title root) (take 5 (feed_items root))"
  have R: "?R = process_root root (initial_result u)"
    using assms(1) by (rule validate_parsed)
  have h: "sample_headlines ?R = filter (\<lambda>t. t \<noteq> []) ?ts"
    using assms(2) by (simp add: R process_headlines)
  have c: "item_count ?R = length (feed_items root)"
    using assms(2) by (simp add: R process_count)
  have "length (filter (\<lambda>t. t \<noteq> []) ?ts) \<le> length ?ts"
    by (rule length_filter_le)
  then have l: "length (sample_headlines ?R) \<le> min 5 (item_count ?R)"
    by (simp add: h c)
  have s: "sample_headlines ?R = ?ts \<and> length (sample_headlines ?R) = 5"
    if "length (feed_items root) = 7"
      and all: "list_all (\<lambda>i. item_title root i \<noteq> []) (feed_items root)"
  proof -
    have "list_all (\<lambda>i. item_title root i \<noteq> []) (take 5 (feed_items root))"
      using all by (auto simp: list_all_iff dest: in_set_takeD)
    then have "list_all (\<lambda>t. t \<noteq> []) ?ts"
      by (simp add: list_all_iff)
    then have "filter (\<lambda>t. t \<noteq> []) ?ts = ?ts"
      by (rule filter_all)
    then show ?thesis using that(1) by (simp add: h)
  qed
  show ?thesis using h c l s by blast
qed

theorem sample_headlines_first_five_witness:
  "fetch_parse (serving seven_items_doc) ''http://a'' = Inr seven_items_doc
   \<and> tag seven_items_doc = ''rss''
   \<and> length (feed_items seven_items_doc) = 7
   \<and> list_all (\<lambda>i. item_title seven_items_doc i \<noteq> []) (feed_items seven_items_doc)
   \<and> sample_headlines (validate_rss_feed (serving seven_items_doc) ''http://a'' False)
       = [''h1'', ''h2'', ''h3'', ''h4'', ''h5'']
   \<and> fetch_parse (serving atom_doc) ''http://a'' = Inr atom_doc
   \<and> tag atom_doc = atom_feed
   \<and> item_count (validate_rss_feed (serving atom_doc) ''http://a'' False) = 3
   \<and> sample_headlines (validate_rss_feed (serving atom_doc) ''http://a'' False)
       = [''e1'', ''e3'']"
  using sample_headlines_first_five [of "serving seven_items_doc" "''http://a''" seven_items_doc False]
    sample_headlines_first_five [of "serving atom_doc" "''http://a''" atom_doc False]
  by (simp add: example_defs model_defs)

text \<open>
  C6. An \<^verbatim>\<open>rss\<close> root without a \<^verbatim>\<open>channel\<close> child is not an error by itself: title
  and language stay absent, \<^verbatim>\<open>item_count\<close> is 0, and the errors are the two check
  errors and nothing else.
\<close>

theorem missing_channel_not_an_error:
  assumes "fetch_parse E u = Inr root" and "tag root = ''rss''"
    and "find_elem ''channel'' root = None"
  shows "title (validate_rss_feed E u v) = None
         \<and> language (validate_rss_feed E u v) = None
         \<and> item_count (validate_rss_feed E u v) = 0
         \<and> sample_headlines (validate_rss_feed E u v) = []
         \<and> latest_date (validate_rss_feed E u v) = None
         \<and> errors (validate_rss_feed E u v)
             = [''Feed has fewer than 2 items'', ''No headlines found in feed'']
         \<and> valid (validate_rss_feed E u v) = False"
  using assms
  by (simp add: validate_parsed process_root_def rss_branch_def validation_checks_def
      initial_result_def)

theorem missing_channel_not_an_error_witness:
  "fetch_parse (serving bare_rss_doc) ''http://a'' = Inr bare_rss_doc
   \<and> tag bare_rss_doc = ''rss'' \<and> find_elem ''channel'' bare_rss_doc = None
   \<and> errors (validate_rss_feed (serving bare_rss_doc) ''http://a'' False)
       = [''Feed has fewer than 2 items'', ''No headlines found in feed'']"
  using missing_channel_not_an_error [of "serving bare_rss_doc" "''http://a''" bare_rss_doc False]
  by (simp add: example_defs model_defs)




text \<open>
  C8, as amended. When the fetch returns a status from 400 to 599, the statuses for which
  \<^verbatim>\<open>raise_for_status\<close> raises, the result is the initial dictionary with the single
  error "HTTP error: code", which is not the timeout entry, and the parser has no
  influence on it: neither the parse nor the checks run.
\<close>

theorem http_error_4xx_5xx:
  assumes "requests_get E u = Inr resp" and "400 \<le> status_code resp" and "status_code resp < 600"
  shows "validate_rss_feed E u v
           = (initial_result u)\<lparr>errors := [''HTTP error: '' @ str_nat (status_code resp)]\<rparr>
         \<and> errors (validate_rss_feed E u v) \<noteq> [''Request timed out'']
         \<and> validate_rss_feed (E\<lparr>ET_fromstring := p\<rparr>) u v = validate_rss_feed E u v"
proof -
  have a: "fetch_parse E u = Inl (HTTPError (status_code resp))"
    using assms by (rule fetch_parse_status)
  have "requests_get (E\<lparr>ET_fromstring := p\<rparr>) u = Inr resp"
    using assms(1) by simp
  then have b: "fetch_parse (E\<lparr>ET_fromstring := p\<rparr>) u = Inl (HTTPError (status_code resp))"
    using assms(2,3) by (rule fetch_parse_status)
  show ?thesis
    by (simp add: validate_raised [OF a] validate_raised [OF b])
qed

theorem http_error_4xx_5xx_witness:
  "requests_get (answering 404) ''http://a'' = Inr \<lparr>status_code = 404, content = []\<rparr>
   \<and> (400::nat) \<le> 404 \<and> (404::nat) < 600
   \<and> errors (validate_rss_feed (answering 404) ''http://a'' False) = [''HTTP error: 404'']"
  using http_error_4xx_5xx [of "answering 404" "''http://a''" "\<lparr>status_code = 404, content = []\<rparr>" False]
  by (simp add: example_defs str_nat.simps digit_char_def)

text \<open>
  C8 as written fails for a status outside 200 to 299 that \<^verbatim>\<open>raise_for_status\<close> lets
  through: a 304 answer with an empty body is handed to the parser, and the only error
  is a parse error.
\<close>

theorem status_304_counterexample:
  "requests_get (answering 304) ''http://a'' = Inr \<lparr>status_code = 304, content = []\<rparr>
   \<and> \<not> (200 \<le> (304::nat) \<and> (304::nat) < 300)
   \<and> errors (validate_rss_feed (answering 304) ''http://a'' False)
       = [''XML parse error: no element found: line 1, column 0'']"
  by (simp add: example_defs model_defs validate_rss_feed_def try_body_def initial_result_def)




text \<open>
  C10. Every entry of \<^verbatim>\<open>sample_headlines\<close> is a non-empty string, on every path.
\<close>

theorem headlines_nonempty:
  "\<forall>h \<in> set (sample_headlines (validate_rss_feed E u v)). h \<noteq> []"
proof (cases "fetch_parse E u")
  case (Inl e)
  then show ?thesis by (simp add: validate_raised initial_result_def)
next
  case (Inr root)
  show ?thesis
  proof (cases "tag root = ''rss'' \<or> tag root = atom_feed")
    case True
    then show ?thesis using Inr by (simp add: validate_parsed process_headlines)
  next
    case False
    then show ?thesis using Inr by (simp add: validate_parsed process_unknown initial_result_def)
  qed
qed

theorem headlines_nonempty_witness:
  "''h1'' \<in> set (sample_headlines (validate_rss_feed (serving two_items_doc) ''http://a'' False))
   \<and> ''h1'' \<noteq> []"
  using headlines_nonempty [of "serving two_items_doc" "''http://a''" False]
  by (simp add: example_defs model_defs run_defs)

end
